theory Spec2Isabelle
  imports Main
begin

section \<open>Exceptions, observable calls and the result of running a coroutine\<close>

text \<open>
  A Python exception object: whether its class derives from \<open>Exception\<close> (what an
  \<open>except Exception\<close> clause tests; \<open>CancelledError\<close>, \<open>KeyboardInterrupt\<close>,
  \<open>GeneratorExit\<close> and \<open>SystemExit\<close> do not), the name of its class and the text
  \<open>str(e)\<close> gives. Re-raising an exception object is returning the same value.
\<close>

datatype exc = Exc (is_Exception: bool) (exc_class: string) (exc_msg: string)

text \<open>
  The calls the wrapper makes on its collaborators, in the order it makes them.
  \<open>Create\<close> is the call of the session factory, \<open>Yield\<close> the point where the
  caller's unit of work runs, \<open>Debug m\<close> the call \<open>logger.debug(m)\<close>; \<open>Connect\<close>,
  \<open>Execute q\<close> and \<open>Release\<close> are entering \<open>engine.connect()\<close>, executing the
  statement \<open>q\<close> and leaving the connection's \<open>async with\<close> block.
\<close>

datatype event =
    Create | Yield | Commit | Rollback | Debug string | Close
  | Connect | Execute string | Release

text \<open>
  Running a piece of code gives the calls it made and either the exception that
  propagates out of it (\<open>Inl\<close>) or its value (\<open>Inr\<close>).
\<close>

type_synonym 'a run = "event list \<times> (exc + 'a)"

definition ret :: "'a \<Rightarrow> 'a run" where
  "ret x = ([], Inr x)"

definition raise :: "exc \<Rightarrow> 'a run" where
  "raise e = ([], Inl e)"

text \<open>Sequencing: the second statement runs only when the first did not raise.\<close>

definition seq :: "'a run \<Rightarrow> ('a \<Rightarrow> 'b run) \<Rightarrow> 'b run" where
  "seq m f =
     (case m of
        (t, Inl e) \<Rightarrow> (t, Inl e)
      | (t, Inr x) \<Rightarrow> (case f x of (t', r) \<Rightarrow> (t @ t', r)))"

text \<open>
  A call on a collaborator (session, engine, logger): the call is made, and it either
  returns or raises what the collaborator raises.
\<close>

definition await_call :: "event \<Rightarrow> exc option \<Rightarrow> unit run" where
  "await_call ev raises = ([ev], case raises of None \<Rightarrow> Inr () | Some e \<Rightarrow> Inl e)"

text \<open>
  \<open>try: m  except Exception as e: h e\<close>. The handler runs only for an exception whose
  class derives from \<open>Exception\<close>; any other exception passes through.
\<close>

definition try_except_Exception :: "'a run \<Rightarrow> (exc \<Rightarrow> 'a run) \<Rightarrow> 'a run" where
  "try_except_Exception m h =
     (case m of
        (t, Inl e) \<Rightarrow>
          (if is_Exception e then (case h e of (t', r) \<Rightarrow> (t @ t', r)) else (t, Inl e))
      | (t, Inr x) \<Rightarrow> (t, Inr x))"

text \<open>
  \<open>try: m  finally: f\<close>. The final block always runs; when it raises, its exception
  replaces whatever \<open>m\<close> produced, otherwise the outcome of \<open>m\<close> stands.
\<close>

definition try_finally :: "'a run \<Rightarrow> unit run \<Rightarrow> 'a run" where
  "try_finally m f =
     (case m of (t, r) \<Rightarrow>
        (case f of
           (t', Inl e') \<Rightarrow> (t @ t', Inl e')
         | (t', Inr u) \<Rightarrow> (t @ t', r)))"

text \<open>
  \<open>async with enter as c: body c\<close> for a context manager whose exit never suppresses
  an exception (the connection's and the session scope's do not): the exit runs once the
  block was entered, whatever the body did.
\<close>

definition async_with :: "'c run \<Rightarrow> ('c \<Rightarrow> 'a run) \<Rightarrow> unit run \<Rightarrow> 'a run" where
  "async_with enter body exit_cm = seq enter (\<lambda>c. try_finally (body c) exit_cm)"

section \<open>Database.session_manager and Database.session (src/db/db.py)\<close>

text \<open>
  The session the factory hands out, as far as the wrapper sees it: what awaiting each
  of its three calls raises (\<open>None\<close>: the call returns).
\<close>

record AsyncSession =
  commit_raises :: "exc option"
  rollback_raises :: "exc option"
  close_raises :: "exc option"

text \<open>
  The \<open>try\<close> statement of \<open>session_manager\<close>, lines 158-168. \<open>body\<close> is the outcome of
  the caller's unit of work at the \<open>yield\<close>: \<open>None\<close> when it completes, \<open>Some e\<close> when
  it raises \<open>e\<close> (the context manager protocol throws \<open>e\<close> into the generator there).
\<close>

definition session_manager_try :: "AsyncSession \<Rightarrow> exc option \<Rightarrow> unit run" where
  "session_manager_try session body =
     try_finally
       (try_except_Exception
          (seq (await_call Yield body) (\<lambda>_.
             await_call Commit (commit_raises session)))
          (\<lambda>e.
             seq (await_call Rollback (rollback_raises session)) (\<lambda>_.
             seq (await_call (Debug (''Session error: '' @ exc_msg e)) None) (\<lambda>_.
             raise e))))
       (await_call Close (close_raises session))"

text \<open>
  \<open>async with db.session_manager() as session: <unit of work>\<close>: line 157 creates the
  session, then the \<open>try\<close> statement runs around the unit of work.
\<close>

definition session_manager :: "AsyncSession \<Rightarrow> exc option \<Rightarrow> unit run" where
  "session_manager session body =
     seq (await_call Create None) (\<lambda>_. session_manager_try session body)"








section \<open>Database.check_connection (src/db/db.py)\<close>



section \<open>Python values and configuration objects\<close>

text \<open>
  The values a configuration attribute or a keyword argument can hold. \<open>PCallable\<close>
  stands for anything \<open>callable()\<close> accepts (functions, methods, classes), \<open>PObject\<close>
  for any other object, both told apart by a name.
\<close>

datatype pyval = PNone | PBool bool | PInt int | PStr string | PCallable string | PObject string

fun callable :: "pyval \<Rightarrow> bool" where
  "callable (PCallable f) = True"
| "callable v = False"

text \<open>Truth value testing, as \<open>if v:\<close> and \<open>v or w\<close> do it.\<close>

fun truthy :: "pyval \<Rightarrow> bool" where
  "truthy PNone = False"
| "truthy (PBool b) = b"
| "truthy (PInt i) = (i \<noteq> 0)"
| "truthy (PStr s) = (s \<noteq> [])"
| "truthy (PCallable f) = True"
| "truthy (PObject x) = True"

text \<open>
  A configuration object (a class such as \<open>Config\<close>, or an instance): its attributes
  by name. \<open>dir\<close> lists the names, \<open>hasattr\<close> tests for one, and \<open>map_of obj name\<close> is
  \<open>getattr(obj, name)\<close>, \<open>None\<close> standing for the \<open>AttributeError\<close>.
\<close>

type_synonym pyobj = "(string \<times> pyval) list"

definition dir :: "pyobj \<Rightarrow> string list" where
  "dir obj = map fst obj"

definition hasattr :: "pyobj \<Rightarrow> string \<Rightarrow> bool" where
  "hasattr obj name = (map_of obj name \<noteq> None)"

text \<open>Keyword arguments: a parameter takes the value passed under its name or its default.\<close>

definition param :: "(string \<rightharpoonup> pyval) \<Rightarrow> string \<Rightarrow> pyval \<Rightarrow> pyval" where
  "param kwargs name dflt = (case kwargs name of Some v \<Rightarrow> v | None \<Rightarrow> dflt)"

text \<open>\<open>repr\<close> of a list of plain names, as an f-string formats it: \<open>['a', 'b']\<close>.\<close>

definition py_repr_str :: "string \<Rightarrow> string" where
  "py_repr_str s = [CHR 0x27] @ s @ [CHR 0x27]"

fun join :: "string \<Rightarrow> string list \<Rightarrow> string" where
  "join sep [] = []"
| "join sep [x] = x"
| "join sep (x # y # ys) = x @ sep @ join sep (y # ys)"

definition py_repr_list :: "string list \<Rightarrow> string" where
  "py_repr_list xs = ''['' @ join '', '' (map py_repr_str xs) @ '']''"

section \<open>The libraries and the operating system\<close>

text \<open>
  Construction calls into the ORM library (\<open>URL.create\<close>, \<open>create_async_engine\<close>), the
  logging library (\<open>logging.getLogger\<close>; \<open>setLevel\<close> of a logger or handler, which tests
  the level) and the operating system (\<open>os.makedirs(path, exist_ok=True)\<close>; the open of
  the log file that \<open>logging.FileHandler(path)\<close> makes). None of these is part of the
  repository: what each call returns or raises for given arguments is a parameter of the
  model, and so is what the two calls of the operating system leave on disk.
  In \<open>dsn_args\<close>, \<open>port = None\<close> means that no \<open>port\<close> keyword is passed.

  The theorems hold for every value of these parameters. The examples fix them to
  functions that answer as the libraries do on the arguments of the examples:
  \<open>URL.create\<close> raises \<open>TypeError\<close> for a driver name that is not a string,
  \<open>logging.getLogger\<close> for a name that is neither a string nor false, \<open>setLevel\<close> for
  \<open>None\<close>, and \<open>os.makedirs\<close> raises \<open>FileNotFoundError\<close> for the empty path. Error
  messages are shortened.
\<close>

record filesystem =
  dirs :: "string set"
  files :: "string set"

record dsn_args =
  drivername :: pyval
  username :: pyval
  password :: pyval
  host :: pyval
  database :: pyval
  port :: "pyval option"

record engine_args =
  engine_url :: pyval
  echo :: pyval
  pool_size :: pyval
  max_overflow :: pyval
  isolation_level :: pyval

record libs =
  URL_create :: "dsn_args \<Rightarrow> exc + pyval"
  create_async_engine :: "engine_args \<Rightarrow> exc + pyval"
  getLogger_raises :: "pyval \<Rightarrow> exc option"
  setLevel_raises :: "pyval \<Rightarrow> exc option"
  makedirs :: "filesystem \<Rightarrow> string \<Rightarrow> filesystem \<times> exc option"
  FileHandler_open :: "filesystem \<Rightarrow> string \<Rightarrow> filesystem \<times> exc option"

section \<open>Logger (src/db/logger.py)\<close>

datatype handler = StreamHandler pyval | FileHandler string pyval

record Logger =
  lg_name :: pyval
  lg_level :: pyval
  lg_propagate :: bool
  lg_queue_maxsize :: nat
  lg_handlers :: "handler list"

text \<open>
  \<open>str.strip()\<close> removes leading and trailing whitespace; for the code points below
  256 that a \<open>char\<close> holds these are the ones listed.
\<close>

definition isspace :: "char \<Rightarrow> bool" where
  "isspace c = (of_char c \<in> {9::nat, 10, 11, 12, 13, 28, 29, 30, 31, 32, 133, 160})"

definition strip :: "string \<Rightarrow> string" where
  "strip s = rev (dropWhile isspace (rev (dropWhile isspace s)))"

text \<open>\<open>os.path.join\<close> of two components on a POSIX system.\<close>

definition os_path_join :: "string \<Rightarrow> string \<Rightarrow> string" where
  "os_path_join a b =
     (if take 1 b = ''/'' then b
      else if a = [] \<or> last a = CHR ''/'' then a @ b
      else a @ ''/'' @ b)"

text \<open>
  \<open>Logger._get_file_handler\<close>, lines 97-119. The test of line 104 raises unless
  \<open>logs_dir\<close> and \<open>log_file\<close> are both strings and \<open>log_file.strip()\<close> is not empty. Only
  then is the directory made (line 110), the file handler created on the joined path,
  which opens the file (lines 113-115), and its level set (line 116); each of the three
  calls may raise, and what was done before stays done.
\<close>

definition get_file_handler ::
  "libs \<Rightarrow> filesystem \<Rightarrow> pyval \<Rightarrow> pyval \<Rightarrow> pyval \<Rightarrow> filesystem \<times> (exc + handler)" where
  "get_file_handler lib fs logs_dir log_file logging_level =
     (case (logs_dir, log_file) of
        (PStr d, PStr f) \<Rightarrow>
          if strip f = []
          then (fs, Inl (Exc True ''ValueError''
                  ''Check log file name and path to logs directory are correct.''))
          else
            (case makedirs lib fs d of
               (fs1, Some e) \<Rightarrow> (fs1, Inl e)
             | (fs1, None) \<Rightarrow>
                 (case FileHandler_open lib fs1 (os_path_join d f) of
                    (fs2, Some e) \<Rightarrow> (fs2, Inl e)
                  | (fs2, None) \<Rightarrow>
                      (case setLevel_raises lib logging_level of
                         Some e \<Rightarrow> (fs2, Inl e)
                       | None \<Rightarrow>
                           (fs2, Inr (FileHandler (os_path_join d f) logging_level)))))
      | _ \<Rightarrow>
          (fs, Inl (Exc True ''ValueError''
             ''Check log file name and path to logs directory are correct.'')))"

text \<open>
  \<open>Logger.__init__\<close>, lines 37-75, called as \<open>Logger(**kwargs)\<close>. Keywords that are no
  parameter of its own land in its \<open>**kwargs\<close>, which the body never reads; only the name
  \<open>self\<close> cannot be passed by keyword. The logger is fetched by name (line 47) and its
  level set (line 48), the console handler is made and its level set (lines 60-62, 90-92),
  and with \<open>log_to_file\<close> true the file handler is made (lines 65-73); the queue and its
  listener (line 75) do not depend on the arguments.
\<close>

definition Logger_init ::
  "libs \<Rightarrow> filesystem \<Rightarrow> (string \<rightharpoonup> pyval) \<Rightarrow> filesystem \<times> (exc + Logger)" where
  "Logger_init lib fs kwargs =
     (if kwargs ''self'' \<noteq> None
      then (fs, Inl (Exc True ''TypeError'' ''got multiple values for argument self''))
      else
        (let logger_name = param kwargs ''logger_name'' (PStr ''sa.manager'');
             logging_level = param kwargs ''logging_level'' (PInt 20);
             log_to_file = param kwargs ''log_to_file'' (PBool False);
             logs_dir = param kwargs ''logs_dir'' (PStr ''logs'');
             log_file = param kwargs ''log_file'' (PStr ''sa-manager.log'')
         in case getLogger_raises lib logger_name of
              Some e \<Rightarrow> (fs, Inl e)
            | None \<Rightarrow>
                (case setLevel_raises lib logging_level of
                   Some e \<Rightarrow> (fs, Inl e)
                 | None \<Rightarrow>
                     (case setLevel_raises lib logging_level of
                        Some e \<Rightarrow> (fs, Inl e)
                      | None \<Rightarrow>
                          if truthy log_to_file
                          then
                            (case get_file_handler lib fs logs_dir log_file logging_level of
                               (fs', Inl e) \<Rightarrow> (fs', Inl e)
                             | (fs', Inr file_handler) \<Rightarrow>
                                 (fs', Inr \<lparr>lg_name = logger_name,
                                            lg_level = logging_level,
                                            lg_propagate = False,
                                            lg_queue_maxsize = 1000,
                                            lg_handlers =
                                              [StreamHandler logging_level,
                                               file_handler]\<rparr>))
                          else
                            (fs, Inr \<lparr>lg_name = logger_name, lg_level = logging_level,
                                      lg_propagate = False, lg_queue_maxsize = 1000,
                                      lg_handlers = [StreamHandler logging_level]\<rparr>)))))"

section \<open>Database.__init__ and Database.from_obj (src/db/db.py)\<close>

record Database =
  db_url :: pyval
  db_base :: pyval
  db_engine :: pyval
  db_logging :: Logger

text \<open>
  \<open>Database.__init__\<close>, lines 36-65, called as \<open>cls(**attrs)\<close>: the six named
  parameters are bound from the keywords, every other keyword goes to \<open>**kwargs\<close> and
  from there to \<open>Logger(**kwargs)\<close>. The two \<open>TypeError\<close>s are the interpreter's, for a
  keyword named \<open>self\<close> and for a call without \<open>url\<close>; their messages are shortened.
\<close>

definition Database_init ::
  "libs \<Rightarrow> filesystem \<Rightarrow> (string \<rightharpoonup> pyval) \<Rightarrow> filesystem \<times> (exc + Database)" where
  "Database_init lib fs attrs =
     (if attrs ''self'' \<noteq> None
      then (fs, Inl (Exc True ''TypeError'' ''got multiple values for argument self''))
      else
        (case attrs ''url'' of
           None \<Rightarrow>
             (fs, Inl (Exc True ''TypeError'' ''missing 1 required positional argument: url''))
         | Some u \<Rightarrow>
             (let base = param attrs ''base'' PNone;
                  kwargs = attrs |` (- {''url'', ''base'', ''echo'', ''pool_size'',
                                         ''max_overflow'', ''isolation_level''})
              in case create_async_engine lib
                        \<lparr>engine_url = u,
                         echo = param attrs ''echo'' (PBool False),
                         pool_size = param attrs ''pool_size'' (PInt 5),
                         max_overflow = param attrs ''max_overflow'' (PInt 10),
                         isolation_level =
                           param attrs ''isolation_level'' (PStr ''REPEATABLE READ'')\<rparr> of
                   Inl e \<Rightarrow> (fs, Inl e)
                 | Inr engine \<Rightarrow>
                     (case Logger_init lib fs kwargs of
                        (fs', Inl e) \<Rightarrow> (fs', Inl e)
                      | (fs', Inr logging) \<Rightarrow>
                          (fs', Inr \<lparr>db_url = u,
                                     db_base = (if truthy base then base
                                                else PCallable ''DeclarativeBase''),
                                     db_engine = engine,
                                     db_logging = logging\<rparr>)))))"

definition dsn_required :: "string list" where
  "dsn_required = [''driver'', ''user'', ''password'', ''host'', ''database'']"

text \<open>
  The loop of lines 113-122 over the names \<open>dir(obj)\<close> gives: dunder names and callables
  are passed over, so are names already in \<open>attrs\<close> or in \<open>dsn_required\<close>; every other
  attribute is added to \<open>attrs\<close>.
\<close>

fun collect ::
  "pyobj \<Rightarrow> string list \<Rightarrow> string list \<Rightarrow> (string \<rightharpoonup> pyval) \<Rightarrow> exc + (string \<rightharpoonup> pyval)" where
  "collect obj [] required attrs = Inr attrs"
| "collect obj (attr_name # names) required attrs =
     (if take 2 attr_name = ''__'' then collect obj names required attrs
      else
        (case map_of obj attr_name of
           None \<Rightarrow> Inl (Exc True ''AttributeError'' attr_name)
         | Some v \<Rightarrow>
             if callable v then collect obj names required attrs
             else if attrs attr_name \<noteq> None \<or> attr_name \<in> set required
             then collect obj names required attrs
             else collect obj names required (attrs(attr_name \<mapsto> v))))"

text \<open>
  Lines 87-122 of \<open>from_obj\<close>: the keyword arguments it builds for the constructor. A
  \<open>url\<close> attribute that exists and is not \<open>None\<close> is taken as it is. Otherwise the names of
  \<open>dsn_required\<close> that the object lacks are listed, and a \<open>TypeError\<close> names them when
  there are any; else the components, with the port when the object has one, go to
  \<open>URL.create\<close>.
\<close>

definition from_obj_attrs :: "libs \<Rightarrow> pyobj \<Rightarrow> exc + (string \<rightharpoonup> pyval)" where
  "from_obj_attrs lib obj =
     (if hasattr obj ''url'' \<and> map_of obj ''url'' \<noteq> Some PNone
      then
        (case map_of obj ''url'' of
           None \<Rightarrow> Inl (Exc True ''AttributeError'' ''url'')
         | Some u \<Rightarrow> collect obj (dir obj) dsn_required [''url'' \<mapsto> u])
      else
        (let missing = filter (\<lambda>attr. \<not> hasattr obj attr) dsn_required
         in if missing \<noteq> []
            then Inl (Exc True ''TypeError'' (''Missing attributes: '' @ py_repr_list missing))
            else
              (case (map_of obj ''driver'', map_of obj ''user'', map_of obj ''password'',
                     map_of obj ''host'', map_of obj ''database'') of
                 (Some d, Some u, Some p, Some h, Some db) \<Rightarrow>
                   (case URL_create lib
                           \<lparr>drivername = d, username = u, password = p, host = h,
                            database = db, port = map_of obj ''port''\<rparr> of
                      Inl e \<Rightarrow> Inl e
                    | Inr dsn \<Rightarrow>
                        collect obj (dir obj)
                          (dsn_required @ (if hasattr obj ''port'' then [''port''] else []))
                          [''url'' \<mapsto> dsn])
               | _ \<Rightarrow> Inl (Exc True ''AttributeError'' []))))"

text \<open>Line 124, \<open>return cls(**attrs)\<close>.\<close>

definition from_obj :: "libs \<Rightarrow> filesystem \<Rightarrow> pyobj \<Rightarrow> filesystem \<times> (exc + Database)" where
  "from_obj lib fs obj =
     (case from_obj_attrs lib obj of
        Inl e \<Rightarrow> (fs, Inl e)
      | Inr attrs \<Rightarrow> Database_init lib fs attrs)"

section \<open>Properties of the session scope\<close>

lemmas run_defs = ret_def raise_def seq_def await_call_def try_except_Exception_def
  try_finally_def async_with_def



lemma session_manager_completes:
  "session_manager session None =
     ([Create, Yield, Commit]
        @ (case commit_raises session of
             None \<Rightarrow> []
           | Some ce \<Rightarrow>
               if is_Exception ce
               then Rollback # (case rollback_raises session of
                                  None \<Rightarrow> [Debug (''Session error: '' @ exc_msg ce)]
                                | Some r \<Rightarrow> [])
               else [])
        @ [Close],
      case close_raises session of
        Some c \<Rightarrow> Inl c
      | None \<Rightarrow>
          (case commit_raises session of
             None \<Rightarrow> Inr ()
           | Some ce \<Rightarrow>
               if is_Exception ce
               then (case rollback_raises session of Some r \<Rightarrow> Inl r | None \<Rightarrow> Inl ce)
               else Inl ce))"
  by (simp add: session_manager_def session_manager_try_def run_defs split: option.splits)




text \<open>
  Claim C2, as the code has it. When the unit of work completes, the scope commits
  exactly once, right after the unit of work, and closes exactly once as its last
  call. It rolls back at most once, and it does so exactly when the commit raised an
  exception derived from \<open>Exception\<close>; when the commit returns, the calls are create,
  unit of work, commit, close and nothing else.
\<close>

theorem session_manager_normal_path:
  "count_list (fst (session_manager session None)) Commit = 1
 \<and> take 3 (fst (session_manager session None)) = [Create, Yield, Commit]
 \<and> count_list (fst (session_manager session None)) Close = 1
 \<and> last (fst (session_manager session None)) = Close
 \<and> count_list (fst (session_manager session None)) Rollback \<le> 1
 \<and> (Rollback \<in> set (fst (session_manager session None))
        \<longleftrightarrow> (\<exists>ce. commit_raises session = Some ce \<and> is_Exception ce))
 \<and> (commit_raises session = None \<longrightarrow>
        session_manager session None =
          ([Create, Yield, Commit, Close],
           case close_raises session of None \<Rightarrow> Inr () | Some c \<Rightarrow> Inl c))"
  by (simp add: session_manager_completes split: option.splits)

theorem session_manager_normal_path_witness:
  "session_manager \<lparr>commit_raises = None, rollback_raises = None, close_raises = None\<rparr> None
     = ([Create, Yield, Commit, Close], Inr ())
   \<and> Rollback \<notin> set (fst (session_manager
         \<lparr>commit_raises = None, rollback_raises = None, close_raises = None\<rparr> None))"
  using session_manager_normal_path
    [of "\<lparr>commit_raises = None, rollback_raises = None, close_raises = None\<rparr>"]
  by simp

text \<open>
  "Rollback is never invoked" fails when the commit raises: the commit stands inside
  the \<open>try\<close> block, so its exception reaches the handler, which rolls back.
\<close>

theorem session_manager_commit_fails_counterexample:
  "session_manager
     \<lparr>commit_raises = Some (Exc True ''IntegrityError'' ''duplicate key''),
      rollback_raises = None, close_raises = None\<rparr>
     None
   = ([Create, Yield, Commit, Rollback, Debug ''Session error: duplicate key'', Close],
      Inl (Exc True ''IntegrityError'' ''duplicate key''))"
  by (simp add: session_manager_def session_manager_try_def run_defs)

section \<open>Properties of the iterator-style acquisition\<close>


lemma session_manager_trace:
  "fst (session_manager session body) = Create # fst (session_manager_try session body)"
  by (cases "session_manager_try session body")
     (simp add: session_manager_def seq_def await_call_def)










section \<open>Properties of the health check\<close>





section \<open>Properties of the logger's file parameters\<close>

text \<open>A string strips to nothing exactly when it holds whitespace only.\<close>

lemma strip_empty_iff: "strip s = [] \<longleftrightarrow> (\<forall>c\<in>set s. isspace c)"
proof
  assume "strip s = []"
  then have all: "\<forall>c\<in>set (dropWhile isspace s). isspace c"
    by (simp add: strip_def)
  have "dropWhile isspace s = []"
  proof (rule ccontr)
    assume ne: "dropWhile isspace s \<noteq> []"
    then have "\<not> isspace (hd (dropWhile isspace s))" by (rule hd_dropWhile)
    moreover from ne have "hd (dropWhile isspace s) \<in> set (dropWhile isspace s)" by simp
    ultimately show False using all by blast
  qed
  then show "\<forall>c\<in>set s. isspace c" by simp
next
  assume "\<forall>c\<in>set s. isspace c"
  then show "strip s = []" by (auto simp add: strip_def dest: set_dropWhileD)
qed

text \<open>The test of line 104, and what follows it when it passes.\<close>

lemma get_file_handler_invalid:
  "(\<nexists>d. logs_dir = PStr d) \<or> (\<nexists>f. log_file = PStr f \<and> (\<exists>c\<in>set f. \<not> isspace c)) \<Longrightarrow>
   get_file_handler lib fs logs_dir log_file level =
     (fs, Inl (Exc True ''ValueError''
        ''Check log file name and path to logs directory are correct.''))"
  by (cases logs_dir; cases log_file) (auto simp add: get_file_handler_def strip_empty_iff)

lemma get_file_handler_valid:
  "\<exists>c\<in>set f. \<not> isspace c \<Longrightarrow> setLevel_raises lib level = None \<Longrightarrow>
   get_file_handler lib fs (PStr d) (PStr f) level =
     (case makedirs lib fs d of
        (fs1, Some e) \<Rightarrow> (fs1, Inl e)
      | (fs1, None) \<Rightarrow>
          (case FileHandler_open lib fs1 (os_path_join d f) of
             (fs2, Some e) \<Rightarrow> (fs2, Inl e)
           | (fs2, None) \<Rightarrow> (fs2, Inr (FileHandler (os_path_join d f) level))))"
  by (auto simp add: get_file_handler_def strip_empty_iff split: prod.splits option.splits)

text \<open>
  Lines 47-48 come first: a name or level that the logging library refuses ends the
  construction before the file parameters are looked at.
\<close>

lemma Logger_init_refused:
  assumes "kwargs ''self'' = None"
  shows "getLogger_raises lib (param kwargs ''logger_name'' (PStr ''sa.manager'')) = Some e \<Longrightarrow>
           Logger_init lib fs kwargs = (fs, Inl e)"
    and "getLogger_raises lib (param kwargs ''logger_name'' (PStr ''sa.manager'')) = None \<Longrightarrow>
         setLevel_raises lib (param kwargs ''logging_level'' (PInt 20)) = Some e \<Longrightarrow>
           Logger_init lib fs kwargs = (fs, Inl e)"
  using assms by (simp_all add: Logger_init_def Let_def)

lemma Logger_init_accepted:
  assumes "kwargs ''self'' = None"
    and "truthy (param kwargs ''log_to_file'' (PBool False))"
    and "getLogger_raises lib (param kwargs ''logger_name'' (PStr ''sa.manager'')) = None"
    and "setLevel_raises lib (param kwargs ''logging_level'' (PInt 20)) = None"
  shows "Logger_init lib fs kwargs =
          (case get_file_handler lib fs (param kwargs ''logs_dir'' (PStr ''logs''))
                  (param kwargs ''log_file'' (PStr ''sa-manager.log''))
                  (param kwargs ''logging_level'' (PInt 20)) of
             (fs', Inl e) \<Rightarrow> (fs', Inl e)
           | (fs', Inr file_handler) \<Rightarrow>
               (fs', Inr \<lparr>lg_name = param kwargs ''logger_name'' (PStr ''sa.manager''),
                          lg_level = param kwargs ''logging_level'' (PInt 20),
                          lg_propagate = False, lg_queue_maxsize = 1000,
                          lg_handlers =
                            [StreamHandler (param kwargs ''logging_level'' (PInt 20)),
                             file_handler]\<rparr>))"
  using assms by (simp add: Logger_init_def Let_def)

text \<open>
  Claim C7, as the code has it. With file logging enabled, a directory that is not a
  string, a file name that is not a string, or a file name that holds nothing but
  whitespace (the empty name included) makes construction fail with directories and
  files as they were; the error is the \<open>ValueError\<close> of line 105 when the logging library
  accepts the logger name and the level. A name or level that the library refuses
  (lines 47-48) ends construction with the library's error, nothing on disk changed,
  whatever the file parameters are. In every other case \<open>os.makedirs\<close> is called on the
  directory and, if it returns, the file \<open>os.path.join(logs_dir, log_file)\<close> is opened; an
  error of either call is the error of the construction, and what the calls did on disk
  stays; when both return, the logger has the console sink and that file sink.
\<close>

theorem Logger_file_parameters:
  assumes "kwargs ''self'' = None"
    and "truthy (param kwargs ''log_to_file'' (PBool False))"
    and "param kwargs ''logs_dir'' (PStr ''logs'') = logs_dir"
    and "param kwargs ''log_file'' (PStr ''sa-manager.log'') = log_file"
    and "param kwargs ''logger_name'' (PStr ''sa.manager'') = name"
    and "param kwargs ''logging_level'' (PInt 20) = level"
  shows "((\<nexists>d. logs_dir = PStr d)
            \<or> (\<nexists>f. log_file = PStr f \<and> (\<exists>c\<in>set f. \<not> isspace c))
          \<longrightarrow> fst (Logger_init lib fs kwargs) = fs
              \<and> (\<exists>e. snd (Logger_init lib fs kwargs) = Inl e)
              \<and> (getLogger_raises lib name = None \<and> setLevel_raises lib level = None
                  \<longrightarrow> Logger_init lib fs kwargs =
                        (fs, Inl (Exc True ''ValueError''
                           ''Check log file name and path to logs directory are correct.''))))
       \<and> (\<forall>e. getLogger_raises lib name = Some e
                \<or> getLogger_raises lib name = None \<and> setLevel_raises lib level = Some e
              \<longrightarrow> Logger_init lib fs kwargs = (fs, Inl e))
       \<and> (\<forall>d f. logs_dir = PStr d \<and> log_file = PStr f \<and> (\<exists>c\<in>set f. \<not> isspace c)
                \<and> getLogger_raises lib name = None \<and> setLevel_raises lib level = None
          \<longrightarrow> Logger_init lib fs kwargs =
                (case makedirs lib fs d of
                   (fs1, Some e) \<Rightarrow> (fs1, Inl e)
                 | (fs1, None) \<Rightarrow>
                     (case FileHandler_open lib fs1 (os_path_join d f) of
                        (fs2, Some e) \<Rightarrow> (fs2, Inl e)
                      | (fs2, None) \<Rightarrow>
                          (fs2, Inr \<lparr>lg_name = name, lg_level = level,
                                     lg_propagate = False, lg_queue_maxsize = 1000,
                                     lg_handlers =
                                       [StreamHandler level,
                                        FileHandler (os_path_join d f) level]\<rparr>))))"
proof (intro conjI impI allI)
  assume inv: "(\<nexists>d. logs_dir = PStr d)
            \<or> (\<nexists>f. log_file = PStr f \<and> (\<exists>c\<in>set f. \<not> isspace c))"
  note gfh = get_file_handler_invalid [OF inv, of lib fs level]
  show "fst (Logger_init lib fs kwargs) = fs"
    using assms gfh
    by (auto simp add: Logger_init_def Let_def split: option.splits)
  show "\<exists>e. snd (Logger_init lib fs kwargs) = Inl e"
    using assms gfh
    by (auto simp add: Logger_init_def Let_def split: option.splits)
  assume "getLogger_raises lib name = None \<and> setLevel_raises lib level = None"
  with assms gfh
  show "Logger_init lib fs kwargs =
                        (fs, Inl (Exc True ''ValueError''
                           ''Check log file name and path to logs directory are correct.''))"
    by (simp add: Logger_init_def Let_def)
next
  fix e
  assume "getLogger_raises lib name = Some e
                \<or> getLogger_raises lib name = None \<and> setLevel_raises lib level = Some e"
  with assms Logger_init_refused(1) [of kwargs lib e fs]
    Logger_init_refused(2) [of kwargs lib e fs]
  show "Logger_init lib fs kwargs = (fs, Inl e)"
    by auto
next
  fix d f
  assume a: "logs_dir = PStr d \<and> log_file = PStr f \<and> (\<exists>c\<in>set f. \<not> isspace c)
                \<and> getLogger_raises lib name = None \<and> setLevel_raises lib level = None"
  then have c: "\<exists>c\<in>set f. \<not> isspace c" and sl: "setLevel_raises lib level = None"
    by simp_all
  from a assms have acc:
    "getLogger_raises lib (param kwargs ''logger_name'' (PStr ''sa.manager'')) = None"
    "setLevel_raises lib (param kwargs ''logging_level'' (PInt 20)) = None"
    by simp_all
  show "Logger_init lib fs kwargs =
                (case makedirs lib fs d of
                   (fs1, Some e) \<Rightarrow> (fs1, Inl e)
                 | (fs1, None) \<Rightarrow>
                     (case FileHandler_open lib fs1 (os_path_join d f) of
                        (fs2, Some e) \<Rightarrow> (fs2, Inl e)
                      | (fs2, None) \<Rightarrow>
                          (fs2, Inr \<lparr>lg_name = name, lg_level = level,
                                     lg_propagate = False, lg_queue_maxsize = 1000,
                                     lg_handlers =
                                       [StreamHandler level,
                                        FileHandler (os_path_join d f) level]\<rparr>)))"
    unfolding Logger_init_accepted [OF assms(1,2) acc]
    using a assms(3-6) get_file_handler_valid [OF c sl, of fs d]
    by (auto split: prod.splits option.splits)
qed

theorem Logger_file_parameters_witness:
  "(let lib =
      \<lparr>URL_create =
         (\<lambda>a. case drivername a of
                 PStr s \<Rightarrow> Inr (PObject ''URL'')
               | _ \<Rightarrow> Inl (Exc True ''TypeError'' ''drivername must be a string'')),
       create_async_engine =
         (\<lambda>a. if engine_url a = PObject ''URL''
                  \<or> engine_url a = PStr ''postgresql+asyncpg://u:p@h/d''
               then Inr (PObject ''AsyncEngine'')
               else Inl (Exc True ''ArgumentError'' ''Could not parse SQLAlchemy URL'')),
       getLogger_raises =
         (\<lambda>n. case n of
                 PStr s \<Rightarrow> None
               | _ \<Rightarrow> if truthy n
                      then Some (Exc True ''TypeError'' ''A logger name must be a string'')
                      else None),
       setLevel_raises =
         (\<lambda>l. case l of
                 PInt i \<Rightarrow> None
               | PBool b \<Rightarrow> None
               | _ \<Rightarrow> Some (Exc True ''TypeError'' ''Level not an integer or a valid string'')),
       makedirs =
         (\<lambda>fs d. if d = []
                  then (fs, Some (Exc True ''FileNotFoundError'' ''No such file or directory''))
                  else (fs\<lparr>dirs := insert d (dirs fs)\<rparr>, None)),
       FileHandler_open = (\<lambda>fs p. (fs\<lparr>files := insert p (files fs)\<rparr>, None))\<rparr>
    in Logger_init lib \<lparr>dirs = {}, files = {}\<rparr>
         [''log_to_file'' \<mapsto> PBool True, ''logs_dir'' \<mapsto> PStr ''logs'',
          ''log_file'' \<mapsto> PStr ''test.log'']
       = (\<lparr>dirs = {''logs''}, files = {''logs/test.log''}\<rparr>,
          Inr \<lparr>lg_name = PStr ''sa.manager'', lg_level = PInt 20,
               lg_propagate = False, lg_queue_maxsize = 1000,
               lg_handlers =
                 [StreamHandler (PInt 20), FileHandler ''logs/test.log'' (PInt 20)]\<rparr>)
     \<and> Logger_init lib \<lparr>dirs = {}, files = {}\<rparr>
         [''log_to_file'' \<mapsto> PBool True, ''logs_dir'' \<mapsto> PNone,
          ''log_file'' \<mapsto> PStr ''valid.log'']
       = (\<lparr>dirs = {}, files = {}\<rparr>,
          Inl (Exc True ''ValueError''
                 ''Check log file name and path to logs directory are correct.''))
     \<and> Logger_init lib \<lparr>dirs = {}, files = {}\<rparr>
         [''log_to_file'' \<mapsto> PBool True, ''logger_name'' \<mapsto> PInt 5,
          ''log_file'' \<mapsto> PStr ''valid.log'']
       = (\<lparr>dirs = {}, files = {}\<rparr>,
          Inl (Exc True ''TypeError'' ''A logger name must be a string'')))"
  (is "Let ?lib _")
proof -
  let ?fs = "\<lparr>dirs = {}, files = {}\<rparr>"
  have ok: "\<exists>c\<in>set ''test.log''. \<not> isspace c"
    by (simp add: isspace_def)
  have 1: "Logger_init ?lib ?fs
         [''log_to_file'' \<mapsto> PBool True, ''logs_dir'' \<mapsto> PStr ''logs'',
          ''log_file'' \<mapsto> PStr ''test.log'']
       = (\<lparr>dirs = {''logs''}, files = {''logs/test.log''}\<rparr>,
          Inr \<lparr>lg_name = PStr ''sa.manager'', lg_level = PInt 20,
               lg_propagate = False, lg_queue_maxsize = 1000,
               lg_handlers =
                 [StreamHandler (PInt 20), FileHandler ''logs/test.log'' (PInt 20)]\<rparr>)"
    using ok Logger_file_parameters
      [of "[''log_to_file'' \<mapsto> PBool True, ''logs_dir'' \<mapsto> PStr ''logs'',
            ''log_file'' \<mapsto> PStr ''test.log'']"
          "PStr ''logs''" "PStr ''test.log''" "PStr ''sa.manager''" "PInt 20" ?lib ?fs,
       THEN conjunct2, THEN conjunct2, THEN spec, THEN spec, of "''logs''" "''test.log''"]
    by (simp add: param_def os_path_join_def)
  have 2: "Logger_init ?lib ?fs
         [''log_to_file'' \<mapsto> PBool True, ''logs_dir'' \<mapsto> PNone,
          ''log_file'' \<mapsto> PStr ''valid.log'']
       = (?fs,
          Inl (Exc True ''ValueError''
                 ''Check log file name and path to logs directory are correct.''))"
    using Logger_file_parameters
      [of "[''log_to_file'' \<mapsto> PBool True, ''logs_dir'' \<mapsto> PNone,
            ''log_file'' \<mapsto> PStr ''valid.log'']"
          "PNone" "PStr ''valid.log''" "PStr ''sa.manager''" "PInt 20" ?lib ?fs,
       THEN conjunct1]
    by (simp add: param_def)
  have 3: "Logger_init ?lib ?fs
         [''log_to_file'' \<mapsto> PBool True, ''logger_name'' \<mapsto> PInt 5,
          ''log_file'' \<mapsto> PStr ''valid.log'']
       = (?fs, Inl (Exc True ''TypeError'' ''A logger name must be a string''))"
    using Logger_file_parameters
      [of "[''log_to_file'' \<mapsto> PBool True, ''logger_name'' \<mapsto> PInt 5,
            ''log_file'' \<mapsto> PStr ''valid.log'']"
          "PStr ''logs''" "PStr ''valid.log''" "PInt 5" "PInt 20" ?lib ?fs,
       THEN conjunct2, THEN conjunct1, THEN spec,
       of "Exc True ''TypeError'' ''A logger name must be a string''"]
    by (simp add: param_def)
  from 1 2 3 show ?thesis
    unfolding Let_def by (intro conjI)
qed

text \<open>
  Three ways in which the claim as worded fails. "A non-empty string" is not enough for
  the file name: line 104 tests \<open>log_file.strip()\<close>, so a name of blanks is refused
  although it is a non-empty string and the directory is a string. A directory and a file
  name that pass the test are not enough for the sink: with the empty string as directory
  \<open>os.makedirs\<close> raises, no directory is made and no sink installed. And the error is not
  always the \<open>ValueError\<close>: with the level \<open>None\<close> and an empty file name, \<open>setLevel\<close> of
  line 48 raises \<open>TypeError\<close> before the file parameters are looked at.
\<close>

theorem Logger_blank_file_name_counterexample:
  "(let lib =
      \<lparr>URL_create =
         (\<lambda>a. case drivername a of
                 PStr s \<Rightarrow> Inr (PObject ''URL'')
               | _ \<Rightarrow> Inl (Exc True ''TypeError'' ''drivername must be a string'')),
       create_async_engine =
         (\<lambda>a. if engine_url a = PObject ''URL''
                  \<or> engine_url a = PStr ''postgresql+asyncpg://u:p@h/d''
               then Inr (PObject ''AsyncEngine'')
               else Inl (Exc True ''ArgumentError'' ''Could not parse SQLAlchemy URL'')),
       getLogger_raises =
         (\<lambda>n. case n of
                 PStr s \<Rightarrow> None
               | _ \<Rightarrow> if truthy n
                      then Some (Exc True ''TypeError'' ''A logger name must be a string'')
                      else None),
       setLevel_raises =
         (\<lambda>l. case l of
                 PInt i \<Rightarrow> None
               | PBool b \<Rightarrow> None
               | _ \<Rightarrow> Some (Exc True ''TypeError'' ''Level not an integer or a valid string'')),
       makedirs =
         (\<lambda>fs d. if d = []
                  then (fs, Some (Exc True ''FileNotFoundError'' ''No such file or directory''))
                  else (fs\<lparr>dirs := insert d (dirs fs)\<rparr>, None)),
       FileHandler_open = (\<lambda>fs p. (fs\<lparr>files := insert p (files fs)\<rparr>, None))\<rparr>
    in Logger_init lib \<lparr>dirs = {}, files = {}\<rparr>
         [''log_to_file'' \<mapsto> PBool True, ''logs_dir'' \<mapsto> PStr ''logs'',
          ''log_file'' \<mapsto> PStr '' '']
       = (\<lparr>dirs = {}, files = {}\<rparr>,
          Inl (Exc True ''ValueError''
                 ''Check log file name and path to logs directory are correct.''))
     \<and> Logger_init lib \<lparr>dirs = {}, files = {}\<rparr>
         [''log_to_file'' \<mapsto> PBool True, ''logs_dir'' \<mapsto> PStr [],
          ''log_file'' \<mapsto> PStr ''app.log'']
       = (\<lparr>dirs = {}, files = {}\<rparr>,
          Inl (Exc True ''FileNotFoundError'' ''No such file or directory''))
     \<and> Logger_init lib \<lparr>dirs = {}, files = {}\<rparr>
         [''log_to_file'' \<mapsto> PBool True, ''logging_level'' \<mapsto> PNone,
          ''log_file'' \<mapsto> PStr []]
       = (\<lparr>dirs = {}, files = {}\<rparr>,
          Inl (Exc True ''TypeError'' ''Level not an integer or a valid string'')))"
  by (simp add: Logger_init_def param_def get_file_handler_def strip_def isspace_def
        Let_def)

section \<open>Properties of the factory constructor\<close>

text \<open>
  The loop in closed form: an attribute reaches \<open>attrs\<close> exactly when its name does not
  start with two underscores, its value is not callable, and its name is neither taken
  already nor one of \<open>dsn_required\<close>. The order of \<open>dir(obj)\<close> plays no part.
\<close>

lemma collect_closed:
  "set names \<subseteq> fst ` set obj \<Longrightarrow>
   collect obj names required attrs =
     Inr (\<lambda>n. if attrs n \<noteq> None then attrs n
              else if n \<in> set names \<and> take 2 n \<noteq> ''__'' \<and> n \<notin> set required
                      \<and> (\<exists>v. map_of obj n = Some v \<and> \<not> callable v)
              then map_of obj n else None)"
proof (induction names arbitrary: attrs)
  case Nil
  then show ?case by (auto intro!: ext)
next
  case (Cons a names)
  from Cons.prems have sub: "set names \<subseteq> fst ` set obj" and a: "a \<in> fst ` set obj"
    by simp_all
  from a obtain v where v: "map_of obj a = Some v"
    by (metis domD dom_map_of_conv_image_fst)
  note IH = Cons.IH [OF sub]
  show ?case
  proof (cases "take 2 a = ''__'' \<or> callable v \<or> attrs a \<noteq> None \<or> a \<in> set required")
    case True
    then have "collect obj (a # names) required attrs = collect obj names required attrs"
      using v by auto
    also have "\<dots> = Inr (\<lambda>n. if attrs n \<noteq> None then attrs n
              else if n \<in> set names \<and> take 2 n \<noteq> ''__'' \<and> n \<notin> set required
                      \<and> (\<exists>v. map_of obj n = Some v \<and> \<not> callable v)
              then map_of obj n else None)"
      by (rule IH)
    also have "\<dots> = Inr (\<lambda>n. if attrs n \<noteq> None then attrs n
              else if n \<in> set (a # names) \<and> take 2 n \<noteq> ''__'' \<and> n \<notin> set required
                      \<and> (\<exists>v. map_of obj n = Some v \<and> \<not> callable v)
              then map_of obj n else None)"
      using True v by (auto intro!: ext)
    finally show ?thesis .
  next
    case False
    then have "collect obj (a # names) required attrs
                 = collect obj names required (attrs(a \<mapsto> v))"
      using v by auto
    also have "\<dots> = Inr (\<lambda>n. if (attrs(a \<mapsto> v)) n \<noteq> None then (attrs(a \<mapsto> v)) n
              else if n \<in> set names \<and> take 2 n \<noteq> ''__'' \<and> n \<notin> set required
                      \<and> (\<exists>v. map_of obj n = Some v \<and> \<not> callable v)
              then map_of obj n else None)"
      by (rule IH)
    also have "\<dots> = Inr (\<lambda>n. if attrs n \<noteq> None then attrs n
              else if n \<in> set (a # names) \<and> take 2 n \<noteq> ''__'' \<and> n \<notin> set required
                      \<and> (\<exists>v. map_of obj n = Some v \<and> \<not> callable v)
              then map_of obj n else None)"
      using False v by (auto intro!: ext)
    finally show ?thesis .
  qed
qed

lemma collect_dir:
  "collect obj (dir obj) required attrs =
     Inr (\<lambda>n. if attrs n \<noteq> None then attrs n
              else if take 2 n \<noteq> ''__'' \<and> n \<notin> set required
                      \<and> (\<exists>v. map_of obj n = Some v \<and> \<not> callable v)
              then map_of obj n else None)"
proof -
  have "set (dir obj) \<subseteq> fst ` set obj" by (simp add: dir_def)
  from collect_closed [OF this, of required attrs]
  show ?thesis
    by (auto simp add: dir_def intro!: ext dest: map_of_SomeD) (metis fst_conv image_eqI map_of_SomeD)+
qed

lemma from_obj_attrs_missing:
  assumes "\<not> (hasattr obj ''url'' \<and> map_of obj ''url'' \<noteq> Some PNone)"
    and "\<exists>a\<in>set dsn_required. \<not> hasattr obj a"
  shows "from_obj_attrs lib obj =
           Inl (Exc True ''TypeError''
                 (''Missing attributes: ''
                    @ py_repr_list (filter (\<lambda>a. \<not> hasattr obj a) dsn_required)))"
proof -
  from assms(2) have "filter (\<lambda>a. \<not> hasattr obj a) dsn_required \<noteq> []"
    by (simp add: filter_empty_conv)
  with assms(1) show ?thesis
    by (auto simp add: from_obj_attrs_def Let_def)
qed

lemma from_obj_attrs_components:
  assumes "\<not> (hasattr obj ''url'' \<and> map_of obj ''url'' \<noteq> Some PNone)"
    and "map_of obj ''driver'' = Some d" and "map_of obj ''user'' = Some u"
    and "map_of obj ''password'' = Some p" and "map_of obj ''host'' = Some h"
    and "map_of obj ''database'' = Some db"
  shows "from_obj_attrs lib obj =
          (case URL_create lib
                  \<lparr>drivername = d, username = u, password = p, host = h,
                   database = db, port = map_of obj ''port''\<rparr> of
             Inl e \<Rightarrow> Inl e
           | Inr dsn \<Rightarrow>
               collect obj (dir obj)
                 (dsn_required @ (if hasattr obj ''port'' then [''port''] else []))
                 [''url'' \<mapsto> dsn])"
proof -
  from assms(2-6) have "filter (\<lambda>a. \<not> hasattr obj a) dsn_required = []"
    by (simp add: dsn_required_def hasattr_def)
  with assms show ?thesis
    by (auto simp add: from_obj_attrs_def Let_def)
qed



text \<open>
  With no usable \<open>url\<close> and the five components there, whatever their values:
  \<open>URL.create\<close> is called with them; what it raises is what \<open>from_obj\<close> raises, and with
  the DSN it returns the constructor is called, the keyword \<open>url\<close> being that DSN and
  the other keywords the public, non-callable attributes that are neither \<open>url\<close> nor a
  component.
\<close>

lemma from_obj_components:
  assumes "\<not> (hasattr obj ''url'' \<and> map_of obj ''url'' \<noteq> Some PNone)"
    and "map_of obj ''driver'' = Some d" and "map_of obj ''user'' = Some u"
    and "map_of obj ''password'' = Some p" and "map_of obj ''host'' = Some h"
    and "map_of obj ''database'' = Some db"
  shows "from_obj lib fs obj =
          (case URL_create lib
                  \<lparr>drivername = d, username = u, password = p, host = h,
                   database = db, port = map_of obj ''port''\<rparr> of
             Inl e \<Rightarrow> (fs, Inl e)
           | Inr dsn \<Rightarrow>
               Database_init lib fs
                 (\<lambda>n. if n = ''url'' then Some dsn
                      else if take 2 n \<noteq> ''__''
                              \<and> n \<notin> set (dsn_required
                                          @ (if hasattr obj ''port'' then [''port''] else []))
                              \<and> (\<exists>v. map_of obj n = Some v \<and> \<not> callable v)
                      then map_of obj n else None))"
proof -
  have eq: "\<And>dsn required.
      (\<lambda>n. if [''url'' \<mapsto> dsn] n \<noteq> None then [''url'' \<mapsto> dsn] n
           else if take 2 n \<noteq> ''__'' \<and> n \<notin> set required
                   \<and> (\<exists>v. map_of obj n = Some v \<and> \<not> callable v)
           then map_of obj n else None)
    = (\<lambda>n. if n = ''url'' then Some dsn
           else if take 2 n \<noteq> ''__'' \<and> n \<notin> set required
                   \<and> (\<exists>v. map_of obj n = Some v \<and> \<not> callable v)
           then map_of obj n else None)"
    by (rule ext) simp
  show ?thesis
    unfolding from_obj_def from_obj_attrs_components [OF assms] collect_dir eq
    by (cases "URL_create lib
                  \<lparr>drivername = d, username = u, password = p, host = h,
                   database = db, port = map_of obj ''port''\<rparr>") simp_all
qed

text \<open>
  Claim C3. When the object has no usable \<open>url\<close> (none, or \<open>None\<close>) and lacks one or
  more of \<open>driver\<close>, \<open>user\<close>, \<open>password\<close>, \<open>host\<close>, \<open>database\<close>, \<open>from_obj\<close> fails with
  a \<open>TypeError\<close> whose message is \<open>Missing attributes:\<close> followed by the list of
  exactly the names that are missing, each once; no constructor is called, whatever the
  library would do, and nothing on disk changes.
\<close>

theorem from_obj_missing_attributes:
  assumes "\<not> (hasattr obj ''url'' \<and> map_of obj ''url'' \<noteq> Some PNone)"
    and "\<exists>a\<in>set dsn_required. \<not> hasattr obj a"
  shows "from_obj lib fs obj =
           (fs, Inl (Exc True ''TypeError''
                 (''Missing attributes: ''
                    @ py_repr_list (filter (\<lambda>a. \<not> hasattr obj a) dsn_required))))
       \<and> set (filter (\<lambda>a. \<not> hasattr obj a) dsn_required)
           = {a \<in> set dsn_required. \<not> hasattr obj a}
       \<and> distinct (filter (\<lambda>a. \<not> hasattr obj a) dsn_required)"
  using from_obj_attrs_missing [OF assms, of lib]
  by (simp add: from_obj_def) (simp add: dsn_required_def)

theorem from_obj_missing_attributes_witness:
  "(let lib =
      \<lparr>URL_create =
         (\<lambda>a. case drivername a of
                 PStr s \<Rightarrow> Inr (PObject ''URL'')
               | _ \<Rightarrow> Inl (Exc True ''TypeError'' ''drivername must be a string'')),
       create_async_engine =
         (\<lambda>a. if engine_url a = PObject ''URL''
                  \<or> engine_url a = PStr ''postgresql+asyncpg://u:p@h/d''
               then Inr (PObject ''AsyncEngine'')
               else Inl (Exc True ''ArgumentError'' ''Could not parse SQLAlchemy URL'')),
       getLogger_raises =
         (\<lambda>n. case n of
                 PStr s \<Rightarrow> None
               | _ \<Rightarrow> if truthy n
                      then Some (Exc True ''TypeError'' ''A logger name must be a string'')
                      else None),
       setLevel_raises =
         (\<lambda>l. case l of
                 PInt i \<Rightarrow> None
               | PBool b \<Rightarrow> None
               | _ \<Rightarrow> Some (Exc True ''TypeError'' ''Level not an integer or a valid string'')),
       makedirs =
         (\<lambda>fs d. if d = []
                  then (fs, Some (Exc True ''FileNotFoundError'' ''No such file or directory''))
                  else (fs\<lparr>dirs := insert d (dirs fs)\<rparr>, None)),
       FileHandler_open = (\<lambda>fs p. (fs\<lparr>files := insert p (files fs)\<rparr>, None))\<rparr>
    in from_obj lib \<lparr>dirs = {}, files = {}\<rparr>
         [(''database'', PStr ''d''), (''driver'', PStr ''postgresql+asyncpg''),
          (''password'', PStr ''p''), (''url'', PNone)]
       = (\<lparr>dirs = {}, files = {}\<rparr>,
          Inl (Exc True ''TypeError''
                (''Missing attributes: ['' @ [CHR 0x27] @ ''user'' @ [CHR 0x27] @ '', ''
                   @ [CHR 0x27] @ ''host'' @ [CHR 0x27] @ '']''))))"
  (is "Let ?lib _")
  unfolding Let_def
  using from_obj_missing_attributes
    [of "[(''database'', PStr ''d''), (''driver'', PStr ''postgresql+asyncpg''),
          (''password'', PStr ''p''), (''url'', PNone)]"
        ?lib "\<lparr>dirs = {}, files = {}\<rparr>"]
  by (simp add: hasattr_def dsn_required_def py_repr_list_def py_repr_str_def)

text \<open>
  A keyword the constructors have no parameter for is taken by \<open>**kwargs\<close> of
  \<open>Database.__init__\<close>, passed to \<open>Logger(**kwargs)\<close>, taken by its \<open>**kwargs\<close> and
  never read.
\<close>

lemma Logger_init_ignores:
  "name \<notin> {''self'', ''logger_name'', ''logging_level'', ''log_to_file'', ''logs_dir'',
             ''log_file''} \<Longrightarrow>
   Logger_init lib fs (kwargs(name := x)) = Logger_init lib fs kwargs"
proof -
  assume "name \<notin> {''self'', ''logger_name'', ''logging_level'', ''log_to_file'', ''logs_dir'',
             ''log_file''}"
  then have ne: "''self'' \<noteq> name" "''logger_name'' \<noteq> name" "''logging_level'' \<noteq> name"
    "''log_to_file'' \<noteq> name" "''logs_dir'' \<noteq> name" "''log_file'' \<noteq> name"
    by auto
  show ?thesis by (simp add: Logger_init_def param_def ne)
qed

lemma Database_init_ignores:
  assumes "name \<notin> {''self'', ''url'', ''base'', ''echo'', ''pool_size'', ''max_overflow'',
             ''isolation_level'', ''logger_name'', ''logging_level'', ''log_to_file'',
             ''logs_dir'', ''log_file''}"
  shows "Database_init lib fs (attrs(name := x)) = Database_init lib fs attrs"
proof -
  have kw: "(attrs(name := x)) |` (- {''url'', ''base'', ''echo'', ''pool_size'',
                                       ''max_overflow'', ''isolation_level''})
          = (attrs |` (- {''url'', ''base'', ''echo'', ''pool_size'',
                           ''max_overflow'', ''isolation_level''}))(name := x)"
    using assms by (auto simp add: restrict_map_def fun_eq_iff)
  have lg: "Logger_init lib fs ((attrs |` (- {''url'', ''base'', ''echo'', ''pool_size'',
                           ''max_overflow'', ''isolation_level''}))(name := x))
          = Logger_init lib fs (attrs |` (- {''url'', ''base'', ''echo'', ''pool_size'',
                           ''max_overflow'', ''isolation_level''}))"
    using assms by (intro Logger_init_ignores) simp
  from assms have ne: "''self'' \<noteq> name" "''url'' \<noteq> name" "''base'' \<noteq> name"
    "''echo'' \<noteq> name" "''pool_size'' \<noteq> name" "''max_overflow'' \<noteq> name"
    "''isolation_level'' \<noteq> name"
    by auto
  have pm: "\<And>k d. k \<noteq> name \<Longrightarrow> param (attrs(name := x)) k d = param attrs k d"
    by (simp add: param_def)
  show ?thesis
    unfolding Database_init_def kw
    by (simp add: pm ne lg Let_def cong: option.case_cong sum.case_cong)
qed

lemma map_of_inserted:
  "map_of (xs @ ys) name = None \<Longrightarrow>
   map_of (xs @ (name, v) # ys) n = (if n = name then Some v else map_of (xs @ ys) n)"
  by (auto simp add: map_add_def split: option.splits)

lemma hasattr_inserted:
  "map_of (xs @ ys) name = None \<Longrightarrow> a \<noteq> name \<Longrightarrow>
   hasattr (xs @ (name, v) # ys) a = hasattr (xs @ ys) a"
  by (simp only: hasattr_def map_of_inserted if_False)

lemma from_obj_attrs_inserted:
  assumes name: "name \<notin> {''url'', ''driver'', ''user'', ''password'', ''host'', ''port'',
                          ''database''}"
    and fresh: "map_of (xs @ ys) name = None"
  shows "from_obj_attrs lib (xs @ (name, v) # ys) =
           (case from_obj_attrs lib (xs @ ys) of
              Inl e \<Rightarrow> Inl e
            | Inr attrs \<Rightarrow>
                Inr (attrs(name := (if take 2 name \<noteq> ''__'' \<and> \<not> callable v
                                    then Some v else None))))"
proof -
  let ?obj = "xs @ ys" and ?obj1 = "xs @ (name, v) # ys"
  from name have ne: "''url'' \<noteq> name" "''driver'' \<noteq> name" "''user'' \<noteq> name"
    "''password'' \<noteq> name" "''host'' \<noteq> name" "''port'' \<noteq> name" "''database'' \<noteq> name"
    by auto
  have m: "\<And>n. map_of ?obj1 n = (if n = name then Some v else map_of ?obj n)"
    by (rule map_of_inserted [OF fresh])
  have h: "\<And>a. a \<noteq> name \<Longrightarrow> hasattr ?obj1 a = hasattr ?obj a"
    by (rule hasattr_inserted [OF fresh])
  have missing: "filter (\<lambda>a. \<not> hasattr ?obj1 a) dsn_required
               = filter (\<lambda>a. \<not> hasattr ?obj a) dsn_required"
    using ne by (simp add: dsn_required_def h)
  have req: "\<And>required. name \<notin> set required \<Longrightarrow> (\<And>u. 
     collect ?obj1 (dir ?obj1) required [''url'' \<mapsto> u] =
       (case collect ?obj (dir ?obj) required [''url'' \<mapsto> u] of
          Inl e \<Rightarrow> Inl e
        | Inr attrs \<Rightarrow>
            Inr (attrs(name := (if take 2 name \<noteq> ''__'' \<and> \<not> callable v
                                then Some v else None)))))"
    using ne fresh by (auto simp add: collect_dir m fun_eq_iff simp del: map_of_append)
  have r1: "name \<notin> set dsn_required" using ne by (auto simp add: dsn_required_def)
  have r2: "name \<notin> set (dsn_required @ (if hasattr ?obj ''port'' then [''port''] else []))"
    using ne by (auto simp add: dsn_required_def)
  show ?thesis
    unfolding from_obj_attrs_def missing
    using ne
    by (simp add: m h req [OF r1] req [OF r2] Let_def del: map_of_append
          cong: option.case_cong sum.case_cong split: option.splits sum.splits prod.splits)
qed

text \<open>
  Claim C4, as the code has it. An attribute whose name is none of the recognised
  options (and is not \<open>self\<close>) changes nothing: \<open>from_obj\<close> forwards it to the
  constructor when it is public and not callable, and the construction gives what it
  gives without the attribute. No error is raised on its account.
\<close>

theorem from_obj_ignores_unsupported:
  assumes "name \<notin> {''self'', ''url'', ''driver'', ''user'', ''password'', ''host'', ''port'',
              ''database'', ''base'', ''echo'', ''pool_size'', ''max_overflow'',
              ''isolation_level'', ''logger_name'', ''logging_level'', ''log_to_file'',
              ''logs_dir'', ''log_file''}"
    and "map_of (xs @ ys) name = None"
  shows "from_obj lib fs (xs @ (name, v) # ys) = from_obj lib fs (xs @ ys)
       \<and> (\<forall>attrs. from_obj_attrs lib (xs @ (name, v) # ys) = Inr attrs
             \<and> take 2 name \<noteq> ''__'' \<and> \<not> callable v
            \<longrightarrow> attrs name = Some v)"
proof -
  from assms(1) have dsn: "name \<notin> {''url'', ''driver'', ''user'', ''password'', ''host'',
                                    ''port'', ''database''}"
    and ctor: "name \<notin> {''self'', ''url'', ''base'', ''echo'', ''pool_size'', ''max_overflow'',
             ''isolation_level'', ''logger_name'', ''logging_level'', ''log_to_file'',
             ''logs_dir'', ''log_file''}"
    by auto
  note ins = from_obj_attrs_inserted [OF dsn assms(2), of lib v]
  have "from_obj lib fs (xs @ (name, v) # ys) = from_obj lib fs (xs @ ys)"
    unfolding from_obj_def ins
    by (cases "from_obj_attrs lib (xs @ ys)") (simp_all add: Database_init_ignores [OF ctor])
  moreover have "\<forall>attrs. from_obj_attrs lib (xs @ (name, v) # ys) = Inr attrs
             \<and> take 2 name \<noteq> ''__'' \<and> \<not> callable v
            \<longrightarrow> attrs name = Some v"
    unfolding ins by (cases "from_obj_attrs lib (xs @ ys)") auto
  ultimately show ?thesis by simp
qed

theorem from_obj_ignores_unsupported_witness:
  "(let lib =
      \<lparr>URL_create =
         (\<lambda>a. case drivername a of
                 PStr s \<Rightarrow> Inr (PObject ''URL'')
               | _ \<Rightarrow> Inl (Exc True ''TypeError'' ''drivername must be a string'')),
       create_async_engine =
         (\<lambda>a. if engine_url a = PObject ''URL''
                  \<or> engine_url a = PStr ''postgresql+asyncpg://u:p@h/d''
               then Inr (PObject ''AsyncEngine'')
               else Inl (Exc True ''ArgumentError'' ''Could not parse SQLAlchemy URL'')),
       getLogger_raises =
         (\<lambda>n. case n of
                 PStr s \<Rightarrow> None
               | _ \<Rightarrow> if truthy n
                      then Some (Exc True ''TypeError'' ''A logger name must be a string'')
                      else None),
       setLevel_raises =
         (\<lambda>l. case l of
                 PInt i \<Rightarrow> None
               | PBool b \<Rightarrow> None
               | _ \<Rightarrow> Some (Exc True ''TypeError'' ''Level not an integer or a valid string'')),
       makedirs =
         (\<lambda>fs d. if d = []
                  then (fs, Some (Exc True ''FileNotFoundError'' ''No such file or directory''))
                  else (fs\<lparr>dirs := insert d (dirs fs)\<rparr>, None)),
       FileHandler_open = (\<lambda>fs p. (fs\<lparr>files := insert p (files fs)\<rparr>, None))\<rparr>
    in from_obj lib \<lparr>dirs = {}, files = {}\<rparr>
         [(''unsupported_option'', PInt 1),
          (''url'', PStr ''postgresql+asyncpg://u:p@h/d'')]
       = from_obj lib \<lparr>dirs = {}, files = {}\<rparr>
           [(''url'', PStr ''postgresql+asyncpg://u:p@h/d'')])"
  (is "Let ?lib _")
  unfolding Let_def
  using from_obj_ignores_unsupported
    [of "''unsupported_option''" "[]" "[(''url'', PStr ''postgresql+asyncpg://u:p@h/d'')]"
        ?lib "\<lparr>dirs = {}, files = {}\<rparr>" "PInt 1", THEN conjunct1]
  by simp

text \<open>
  "Fails construction with a type error" does not hold: with an attribute
  \<open>unsupported_option\<close> beside a \<open>url\<close> that the library accepts, the database is
  constructed, with the engine of that \<open>url\<close> and the default console logger.
\<close>

theorem from_obj_unsupported_counterexample:
  "(let lib =
      \<lparr>URL_create =
         (\<lambda>a. case drivername a of
                 PStr s \<Rightarrow> Inr (PObject ''URL'')
               | _ \<Rightarrow> Inl (Exc True ''TypeError'' ''drivername must be a string'')),
       create_async_engine =
         (\<lambda>a. if engine_url a = PObject ''URL''
                  \<or> engine_url a = PStr ''postgresql+asyncpg://u:p@h/d''
               then Inr (PObject ''AsyncEngine'')
               else Inl (Exc True ''ArgumentError'' ''Could not parse SQLAlchemy URL'')),
       getLogger_raises =
         (\<lambda>n. case n of
                 PStr s \<Rightarrow> None
               | _ \<Rightarrow> if truthy n
                      then Some (Exc True ''TypeError'' ''A logger name must be a string'')
                      else None),
       setLevel_raises =
         (\<lambda>l. case l of
                 PInt i \<Rightarrow> None
               | PBool b \<Rightarrow> None
               | _ \<Rightarrow> Some (Exc True ''TypeError'' ''Level not an integer or a valid string'')),
       makedirs =
         (\<lambda>fs d. if d = []
                  then (fs, Some (Exc True ''FileNotFoundError'' ''No such file or directory''))
                  else (fs\<lparr>dirs := insert d (dirs fs)\<rparr>, None)),
       FileHandler_open = (\<lambda>fs p. (fs\<lparr>files := insert p (files fs)\<rparr>, None))\<rparr>
    in from_obj lib \<lparr>dirs = {}, files = {}\<rparr>
         [(''unsupported_option'', PInt 1),
          (''url'', PStr ''postgresql+asyncpg://u:p@h/d'')]
       = (\<lparr>dirs = {}, files = {}\<rparr>,
          Inr \<lparr>db_url = PStr ''postgresql+asyncpg://u:p@h/d'',
               db_base = PCallable ''DeclarativeBase'',
               db_engine = PObject ''AsyncEngine'',
               db_logging =
                 \<lparr>lg_name = PStr ''sa.manager'', lg_level = PInt 20,
                  lg_propagate = False, lg_queue_maxsize = 1000,
                  lg_handlers = [StreamHandler (PInt 20)]\<rparr>\<rparr>))"
  by (simp add: from_obj_def from_obj_attrs_def hasattr_def dir_def dsn_required_def
        Database_init_def Logger_init_def param_def restrict_map_def Let_def)

text \<open>Removing a \<open>url\<close> attribute leaves every other attribute as it was.\<close>

lemma map_of_without:
  "map_of (filter (\<lambda>a. fst a \<noteq> k) obj) n = (if n = k then None else map_of obj n)"
  by (induction obj) auto

lemma hasattr_without:
  "a \<noteq> k \<Longrightarrow> hasattr (filter (\<lambda>a. fst a \<noteq> k) obj) a = hasattr obj a"
  by (simp add: hasattr_def map_of_without)

lemma from_obj_attrs_url_None:
  assumes "map_of obj ''url'' = Some PNone"
  shows "from_obj_attrs lib (filter (\<lambda>a. fst a \<noteq> ''url'') obj) = from_obj_attrs lib obj"
proof -
  let ?obj' = "filter (\<lambda>a. fst a \<noteq> ''url'') obj"
  have m: "\<And>n. map_of ?obj' n = (if n = ''url'' then None else map_of obj n)"
    by (rule map_of_without)
  have missing: "filter (\<lambda>a. \<not> hasattr ?obj' a) dsn_required
               = filter (\<lambda>a. \<not> hasattr obj a) dsn_required"
    by (simp add: dsn_required_def hasattr_without)
  have port: "hasattr ?obj' ''port'' = hasattr obj ''port''"
    by (simp add: hasattr_without)
  have coll: "\<And>required dsn.
      collect ?obj' (dir ?obj') required [''url'' \<mapsto> dsn]
        = collect obj (dir obj) required [''url'' \<mapsto> dsn]"
    by (auto simp add: collect_dir m fun_eq_iff)
  have nu: "\<not> (hasattr ?obj' ''url'' \<and> map_of ?obj' ''url'' \<noteq> Some PNone)"
    by (simp add: hasattr_def m)
  have nu': "\<not> (hasattr obj ''url'' \<and> map_of obj ''url'' \<noteq> Some PNone)"
    using assms by simp
  show ?thesis
    unfolding from_obj_attrs_def missing port if_not_P [OF nu] if_not_P [OF nu']
    by (simp add: m coll Let_def cong: option.case_cong sum.case_cong)
qed

text \<open>
  Claim C10. An object whose \<open>url\<close> attribute is \<open>None\<close> is treated as the same
  object without the attribute: \<open>from_obj\<close> gives the same result. That result is the
  missing-attributes error when a component is missing. When the five components are
  there, the DSN is resolved from them: \<open>URL.create\<close> is called with the components (and
  the port, when the object has one); if it raises, \<open>from_obj\<close> raises the same; if it
  returns a DSN, the constructor is called, and its result returned, with that DSN as
  the keyword \<open>url\<close>, never the attribute's \<open>None\<close>, and with the public, non-callable
  attributes other than \<open>url\<close> and the components as the other keywords.
\<close>

theorem from_obj_url_None_as_absent:
  assumes "map_of obj ''url'' = Some PNone"
  shows "from_obj lib fs obj = from_obj lib fs (filter (\<lambda>a. fst a \<noteq> ''url'') obj)
       \<and> ((\<exists>a\<in>set dsn_required. \<not> hasattr obj a) \<longrightarrow>
            from_obj lib fs obj =
              (fs, Inl (Exc True ''TypeError''
                    (''Missing attributes: ''
                       @ py_repr_list (filter (\<lambda>a. \<not> hasattr obj a) dsn_required)))))
       \<and> (\<forall>d u p h db.
            map_of obj ''driver'' = Some d \<and> map_of obj ''user'' = Some u
          \<and> map_of obj ''password'' = Some p \<and> map_of obj ''host'' = Some h
          \<and> map_of obj ''database'' = Some db \<longrightarrow>
            from_obj lib fs obj =
              (case URL_create lib
                      \<lparr>drivername = d, username = u, password = p, host = h,
                       database = db, port = map_of obj ''port''\<rparr> of
                 Inl e \<Rightarrow> (fs, Inl e)
               | Inr dsn \<Rightarrow>
                   Database_init lib fs
                     (\<lambda>n. if n = ''url'' then Some dsn
                          else if take 2 n \<noteq> ''__''
                                  \<and> n \<notin> set (dsn_required
                                        @ (if hasattr obj ''port'' then [''port''] else []))
                                  \<and> (\<exists>v. map_of obj n = Some v \<and> \<not> callable v)
                          then map_of obj n else None)))"
proof -
  have nu: "\<not> (hasattr obj ''url'' \<and> map_of obj ''url'' \<noteq> Some PNone)"
    using assms by simp
  have 1: "from_obj lib fs obj = from_obj lib fs (filter (\<lambda>a. fst a \<noteq> ''url'') obj)"
    by (simp add: from_obj_def from_obj_attrs_url_None [OF assms])
  have 2: "(\<exists>a\<in>set dsn_required. \<not> hasattr obj a) \<longrightarrow>
            from_obj lib fs obj =
              (fs, Inl (Exc True ''TypeError''
                    (''Missing attributes: ''
                       @ py_repr_list (filter (\<lambda>a. \<not> hasattr obj a) dsn_required))))"
    by (simp add: from_obj_def from_obj_attrs_missing [OF nu])
  have 3: "\<forall>d u p h db.
            map_of obj ''driver'' = Some d \<and> map_of obj ''user'' = Some u
          \<and> map_of obj ''password'' = Some p \<and> map_of obj ''host'' = Some h
          \<and> map_of obj ''database'' = Some db \<longrightarrow>
            from_obj lib fs obj =
              (case URL_create lib
                      \<lparr>drivername = d, username = u, password = p, host = h,
                       database = db, port = map_of obj ''port''\<rparr> of
                 Inl e \<Rightarrow> (fs, Inl e)
               | Inr dsn \<Rightarrow>
                   Database_init lib fs
                     (\<lambda>n. if n = ''url'' then Some dsn
                          else if take 2 n \<noteq> ''__''
                                  \<and> n \<notin> set (dsn_required
                                        @ (if hasattr obj ''port'' then [''port''] else []))
                                  \<and> (\<exists>v. map_of obj n = Some v \<and> \<not> callable v)
                          then map_of obj n else None))"
    using from_obj_components [OF nu] by blast
  from 1 2 3 show ?thesis by (intro conjI)
qed

theorem from_obj_url_None_as_absent_witness:
  "(let lib =
      \<lparr>URL_create =
         (\<lambda>a. case drivername a of
                 PStr s \<Rightarrow> Inr (PObject ''URL'')
               | _ \<Rightarrow> Inl (Exc True ''TypeError'' ''drivername must be a string'')),
       create_async_engine =
         (\<lambda>a. if engine_url a = PObject ''URL''
                  \<or> engine_url a = PStr ''postgresql+asyncpg://u:p@h/d''
               then Inr (PObject ''AsyncEngine'')
               else Inl (Exc True ''ArgumentError'' ''Could not parse SQLAlchemy URL'')),
       getLogger_raises =
         (\<lambda>n. case n of
                 PStr s \<Rightarrow> None
               | _ \<Rightarrow> if truthy n
                      then Some (Exc True ''TypeError'' ''A logger name must be a string'')
                      else None),
       setLevel_raises =
         (\<lambda>l. case l of
                 PInt i \<Rightarrow> None
               | PBool b \<Rightarrow> None
               | _ \<Rightarrow> Some (Exc True ''TypeError'' ''Level not an integer or a valid string'')),
       makedirs =
         (\<lambda>fs d. if d = []
                  then (fs, Some (Exc True ''FileNotFoundError'' ''No such file or directory''))
                  else (fs\<lparr>dirs := insert d (dirs fs)\<rparr>, None)),
       FileHandler_open = (\<lambda>fs p. (fs\<lparr>files := insert p (files fs)\<rparr>, None))\<rparr>
    in from_obj lib \<lparr>dirs = {}, files = {}\<rparr>
         [(''database'', PStr ''d''), (''driver'', PStr ''postgresql+asyncpg''),
          (''echo'', PBool True), (''host'', PStr ''h''), (''password'', PStr ''p''),
          (''url'', PNone), (''user'', PStr ''u'')]
       = (\<lparr>dirs = {}, files = {}\<rparr>,
          Inr \<lparr>db_url = PObject ''URL'',
               db_base = PCallable ''DeclarativeBase'',
               db_engine = PObject ''AsyncEngine'',
               db_logging =
                 \<lparr>lg_name = PStr ''sa.manager'', lg_level = PInt 20,
                  lg_propagate = False, lg_queue_maxsize = 1000,
                  lg_handlers = [StreamHandler (PInt 20)]\<rparr>\<rparr>)
     \<and> from_obj lib \<lparr>dirs = {}, files = {}\<rparr>
         [(''database'', PStr ''d''), (''driver'', PStr ''postgresql+asyncpg''),
          (''echo'', PBool True), (''host'', PStr ''h''), (''password'', PStr ''p''),
          (''url'', PNone), (''user'', PStr ''u'')]
       = from_obj lib \<lparr>dirs = {}, files = {}\<rparr>
         [(''database'', PStr ''d''), (''driver'', PStr ''postgresql+asyncpg''),
          (''echo'', PBool True), (''host'', PStr ''h''), (''password'', PStr ''p''),
          (''user'', PStr ''u'')]
     \<and> from_obj lib \<lparr>dirs = {}, files = {}\<rparr>
         [(''driver'', PStr ''postgresql+asyncpg''), (''url'', PNone)]
       = (\<lparr>dirs = {}, files = {}\<rparr>,
          Inl (Exc True ''TypeError''
                (''Missing attributes: ['' @ [CHR 0x27] @ ''user'' @ [CHR 0x27] @ '', ''
                   @ [CHR 0x27] @ ''password'' @ [CHR 0x27] @ '', ''
                   @ [CHR 0x27] @ ''host'' @ [CHR 0x27] @ '', ''
                   @ [CHR 0x27] @ ''database'' @ [CHR 0x27] @ '']''))))"
  (is "Let ?lib _")
proof -
  let ?obj = "[(''database'', PStr ''d''), (''driver'', PStr ''postgresql+asyncpg''),
          (''echo'', PBool True), (''host'', PStr ''h''), (''password'', PStr ''p''),
          (''url'', PNone), (''user'', PStr ''u'')]"
  let ?fs = "\<lparr>dirs = {}, files = {}\<rparr>"
  have 1: "from_obj ?lib ?fs ?obj
       = (?fs,
          Inr \<lparr>db_url = PObject ''URL'',
               db_base = PCallable ''DeclarativeBase'',
               db_engine = PObject ''AsyncEngine'',
               db_logging =
                 \<lparr>lg_name = PStr ''sa.manager'', lg_level = PInt 20,
                  lg_propagate = False, lg_queue_maxsize = 1000,
                  lg_handlers = [StreamHandler (PInt 20)]\<rparr>\<rparr>)"
    using from_obj_url_None_as_absent [of ?obj ?lib ?fs, THEN conjunct2, THEN conjunct2,
      THEN spec, THEN spec, THEN spec, THEN spec, THEN spec,
      of "PStr ''postgresql+asyncpg''" "PStr ''u''" "PStr ''p''" "PStr ''h''" "PStr ''d''"]
    by (simp add: hasattr_def dsn_required_def Database_init_def Logger_init_def param_def
          restrict_map_def Let_def)
  have 2: "from_obj ?lib ?fs ?obj
       = from_obj ?lib ?fs
         [(''database'', PStr ''d''), (''driver'', PStr ''postgresql+asyncpg''),
          (''echo'', PBool True), (''host'', PStr ''h''), (''password'', PStr ''p''),
          (''user'', PStr ''u'')]"
    using from_obj_url_None_as_absent [of ?obj ?lib ?fs, THEN conjunct1]
    by simp
  have 3: "from_obj ?lib ?fs
         [(''driver'', PStr ''postgresql+asyncpg''), (''url'', PNone)]
       = (?fs,
          Inl (Exc True ''TypeError''
                (''Missing attributes: ['' @ [CHR 0x27] @ ''user'' @ [CHR 0x27] @ '', ''
                   @ [CHR 0x27] @ ''password'' @ [CHR 0x27] @ '', ''
                   @ [CHR 0x27] @ ''host'' @ [CHR 0x27] @ '', ''
                   @ [CHR 0x27] @ ''database'' @ [CHR 0x27] @ '']'')))"
    using from_obj_url_None_as_absent
      [of "[(''driver'', PStr ''postgresql+asyncpg''), (''url'', PNone)]" ?lib ?fs,
       THEN conjunct2, THEN conjunct1]
    by (simp add: hasattr_def dsn_required_def py_repr_list_def py_repr_str_def)
  from 1 2 3 show ?thesis
    unfolding Let_def by (intro conjI)
qed





end
